theory Spec2Isabelle
  imports Main
begin

section \<open>Python values, errors and the library functions the handler calls\<close>

text \<open>
  The handler of \<^verbatim>\<open>smtp2http.py\<close> is modelled with explicit state passing. A Python
  \<^verbatim>\<open>str\<close> is the list of its code points, as a \<open>string\<close>, whose characters range over
  the code points below 256; \<^verbatim>\<open>bytes\<close> is a list of 8-bit characters; an exception that
  leaves a function is the \<open>Inl\<close> branch of its result.
\<close>

datatype error =
  TypeError | AttributeError | LookupError | UnicodeDecodeError | HeaderParseError
| LocationParseError

type_synonym bytes = "char list"

text \<open>The first component of a pair returned by \<^verbatim>\<open>email.header.decode_header\<close>.\<close>

datatype pyval = PStr string | PBytes bytes

text \<open>
  The outcome of \<^verbatim>\<open>requests.post\<close>: a response with its status code, a
  \<^verbatim>\<open>requests.RequestException\<close> with its message, or an exception of another class (such
  as urllib3's \<^verbatim>\<open>LocationParseError\<close>), which the handler of line 165 does not catch.
\<close>

datatype post_result = Response nat | RequestException string | OtherException error

text \<open>
  The library functions whose body is not part of the program are parameters:
  the RFC 2047 word decoding of \<^verbatim>\<open>decode_header\<close> (reached only when the header holds
  an encoded word), the codecs behind \<^verbatim>\<open>str(b, enc)\<close> and \<^verbatim>\<open>b.decode(enc)\<close>, and the
  HTTP call.
\<close>

record env =
  rfc2047_words :: "string \<Rightarrow> error + (bytes \<times> string option) list"
  bytes_decode :: "string \<Rightarrow> bytes \<Rightarrow> error + string"
  requests_post :: "string \<Rightarrow> (string \<times> string) list \<Rightarrow> post_result"

subsection \<open>\<^verbatim>\<open>str.lower\<close>, \<^verbatim>\<open>str.join\<close> and \<^verbatim>\<open>str(n)\<close>\<close>

text \<open>
  \<^verbatim>\<open>str.lower\<close>. Among the code points below 256 the cased capitals are A to Z
  (65 to 90) and the Latin-1 capitals U+00C0 to U+00DE without the multiplication sign
  U+00D7 (192 to 222 without 215); each is 32 below its lower-case letter. Every other
  code point below 256 is its own lower case.
\<close>

definition char_lower :: "char \<Rightarrow> char" where
  "char_lower c =
     (let n = (of_char c :: nat)
      in if (65 \<le> n \<and> n \<le> 90) \<or> (192 \<le> n \<and> n \<le> 222 \<and> n \<noteq> 215)
         then char_of (n + 32) else c)"

definition lower :: "string \<Rightarrow> string" where
  "lower s = map char_lower s"

fun join :: "string \<Rightarrow> string list \<Rightarrow> string" where
  "join sep [] = []"
| "join sep [x] = x"
| "join sep (x # y # ys) = x @ sep @ join sep (y # ys)"

fun str_of_nat :: "nat \<Rightarrow> string" where
  "str_of_nat n =
     (if n < 10 then [char_of (48 + n)]
      else str_of_nat (n div 10) @ [char_of (48 + n mod 10)])"

declare str_of_nat.simps [simp del]

text \<open>An f-string field holding a value that is a \<^verbatim>\<open>str\<close> or \<^verbatim>\<open>None\<close>.\<close>

definition fmt :: "string option \<Rightarrow> string" where
  "fmt v = (case v of None \<Rightarrow> ''None'' | Some s \<Rightarrow> s)"

subsection \<open>\<^verbatim>\<open>email.header.decode_header\<close>\<close>

text \<open>
  \<^verbatim>\<open>ecre.search(header)\<close>, for the regular expression
  \<^verbatim>\<open>=\?[^?]*?\?[qQbB]\?.*?\?=\<close>: after \<^verbatim>\<open>=?\<close> the charset runs to the next \<^verbatim>\<open>?\<close>, then
  one of \<^verbatim>\<open>qQbB\<close>, a \<^verbatim>\<open>?\<close>, and a \<^verbatim>\<open>?=\<close> later on the same line.
\<close>

fun ecre_tail :: "string \<Rightarrow> bool" where
  "ecre_tail [] = False"
| "ecre_tail [c] = False"
| "ecre_tail (c # d # cs) =
     (if c = CHR ''?'' \<and> d = CHR ''='' then True
      else if c = CHR 0x0A then False
      else ecre_tail (d # cs))"

definition ecre_here :: "string \<Rightarrow> bool" where
  "ecre_here s =
     (case s of
        a # b # rest \<Rightarrow>
          a = CHR ''='' \<and> b = CHR ''?'' \<and>
          (case dropWhile (\<lambda>c. c \<noteq> CHR ''?'') rest of
             q # e # q' # tail \<Rightarrow>
               e \<in> {CHR ''q'', CHR ''Q'', CHR ''b'', CHR ''B''} \<and> q' = CHR ''?'' \<and> ecre_tail tail
           | _ \<Rightarrow> False)
      | _ \<Rightarrow> False)"

fun ecre_search :: "string \<Rightarrow> bool" where
  "ecre_search [] = False"
| "ecre_search (c # cs) = (ecre_here (c # cs) \<or> ecre_search cs)"

text \<open>
  \<^verbatim>\<open>decode_header\<close> of a \<^verbatim>\<open>str\<close>: a header without an encoded word comes back unchanged,
  as a \<^verbatim>\<open>str\<close> with charset \<^verbatim>\<open>None\<close>; otherwise every chunk is \<^verbatim>\<open>bytes\<close>.
\<close>

definition decode_header :: "env \<Rightarrow> string \<Rightarrow> error + (pyval \<times> string option) list" where
  "decode_header w header =
     (if \<not> ecre_search header then Inr [(PStr header, None)]
      else (case rfc2047_words w header of
              Inl e \<Rightarrow> Inl e
            | Inr ws \<Rightarrow> Inr (map (\<lambda>(b, cs). (PBytes b, cs)) ws)))"

text \<open>\<^verbatim>\<open>str(obj, encoding)\<close> decodes \<^verbatim>\<open>bytes\<close> and raises \<^verbatim>\<open>TypeError\<close> on a \<^verbatim>\<open>str\<close>.\<close>

definition py_str :: "env \<Rightarrow> pyval \<Rightarrow> string \<Rightarrow> error + string" where
  "py_str w v enc = (case v of PStr s \<Rightarrow> Inl TypeError | PBytes b \<Rightarrow> bytes_decode w enc b)"

text \<open>\<^verbatim>\<open>t[1] or 'utf-8'\<close>: \<^verbatim>\<open>None\<close> and the empty string are falsy.\<close>

definition or_utf8 :: "string option \<Rightarrow> string" where
  "or_utf8 cs = (case cs of None \<Rightarrow> ''utf-8'' | Some c \<Rightarrow> if c = [] then ''utf-8'' else c)"

section \<open>Configuration, messages and the observable state\<close>

text \<open>
  The two globals loaded from the configuration file. The dict \<^verbatim>\<open>EMAIL_ENDPOINTS\<close> is an
  association list: iterating it yields the keys, \<^verbatim>\<open>in\<close> and \<^verbatim>\<open>.get\<close> go through
  \<open>map_of\<close>.
\<close>

record config =
  EMAIL_ENDPOINTS :: "(string \<times> string) list"
  ALLOWED_SENDERS :: "string list"

text \<open>
  A MIME entity as the handler reads it: \<^verbatim>\<open>get_content_type()\<close>, the charset parameter
  seen by \<^verbatim>\<open>get_content_charset\<close>, and either the transfer-decoded payload of a leaf
  or the sub-parts of a multipart container.
\<close>

datatype entity =
  Leaf string "string option" bytes
| Multipart string "string option" "entity list"

fun get_content_type :: "entity \<Rightarrow> string" where
  "get_content_type (Leaf t cs b) = t"
| "get_content_type (Multipart t cs ps) = t"

fun get_content_charset :: "entity \<Rightarrow> string \<Rightarrow> string" where
  "get_content_charset (Leaf t cs b) failobj = (case cs of None \<Rightarrow> failobj | Some c \<Rightarrow> c)"
| "get_content_charset (Multipart t cs ps) failobj = (case cs of None \<Rightarrow> failobj | Some c \<Rightarrow> c)"

fun is_multipart :: "entity \<Rightarrow> bool" where
  "is_multipart (Leaf t cs b) = False"
| "is_multipart (Multipart t cs ps) = True"

text \<open>\<^verbatim>\<open>get_payload(decode=True)\<close> is \<^verbatim>\<open>None\<close> on a multipart container.\<close>

fun get_payload :: "entity \<Rightarrow> bytes option" where
  "get_payload (Leaf t cs b) = Some b"
| "get_payload (Multipart t cs ps) = None"

text \<open>\<^verbatim>\<open>walk()\<close>: the entity itself, then its sub-parts depth first, in order.\<close>

fun walk :: "entity \<Rightarrow> entity list" where
  "walk (Leaf t cs b) = [Leaf t cs b]"
| "walk (Multipart t cs ps) = Multipart t cs ps # concat (map walk ps)"

text \<open>
  \<^verbatim>\<open>message['to']\<close>: \<^verbatim>\<open>None\<close> when the header is absent, the header's value as one
  \<^verbatim>\<open>str\<close> (whatever number of addresses it lists), or an \<^verbatim>\<open>email.header.Header\<close> object
  when the value holds raw 8-bit bytes. The headers \<^verbatim>\<open>message['from']\<close> and
  \<^verbatim>\<open>message.get('subject')\<close> are a \<^verbatim>\<open>str\<close> or absent; the message itself is the root
  entity.
\<close>

datatype to_header = ToNone | ToStr string | ToHeader bytes

record message =
  msg_from :: "string option"
  msg_to :: to_header
  msg_subject :: "string option"
  msg_root :: entity

datatype level = INFO | ERROR

text \<open>The two loggers, and the calls of \<^verbatim>\<open>requests.post\<close> made so far (URL and JSON
  body).\<close>

record state =
  logger_known :: "(level \<times> string) list"
  logger_unknown :: "(level \<times> string) list"
  posts :: "(string \<times> (string \<times> string) list) list"

section \<open>The handler\<close>

subsection \<open>Subject decoding (lines 123--124)\<close>

text \<open>The list comprehension \<^verbatim>\<open>[str(t[0], t[1] or 'utf-8') for t in ...]\<close>, joined.\<close>

fun decode_chunks :: "env \<Rightarrow> (pyval \<times> string option) list \<Rightarrow> error + string" where
  "decode_chunks w [] = Inr []"
| "decode_chunks w (t # ts) =
     (case py_str w (fst t) (or_utf8 (snd t)) of
        Inl e \<Rightarrow> Inl e
      | Inr s \<Rightarrow> (case decode_chunks w ts of Inl e \<Rightarrow> Inl e | Inr r \<Rightarrow> Inr (s @ r)))"

definition decode_subject :: "env \<Rightarrow> message \<Rightarrow> error + string" where
  "decode_subject w message =
     (let subject = (case msg_subject message of None \<Rightarrow> ''No subject'' | Some s \<Rightarrow> s)
      in case decode_header w subject of
           Inl e \<Rightarrow> Inl e
         | Inr ts \<Rightarrow> decode_chunks w ts)"

subsection \<open>Content extraction (lines 127--137)\<close>

text \<open>\<^verbatim>\<open>part.get_payload(decode=True).decode(part.get_content_charset('utf-8'))\<close>\<close>

definition decoded_payload :: "env \<Rightarrow> entity \<Rightarrow> error + string" where
  "decoded_payload w part =
     (case get_payload part of
        None \<Rightarrow> Inl AttributeError
      | Some b \<Rightarrow> bytes_decode w (get_content_charset part ''utf-8'') b)"

text \<open>The \<^verbatim>\<open>for part in message.walk()\<close> loop with its \<^verbatim>\<open>break\<close>; \<^verbatim>\<open>content\<close> starts
  as the empty string.\<close>

fun scan_parts :: "env \<Rightarrow> entity list \<Rightarrow> error + string" where
  "scan_parts w [] = Inr []"
| "scan_parts w (part # rest) =
     (if get_content_type part \<in> set [''text/plain'', ''text/html'']
      then decoded_payload w part
      else scan_parts w rest)"

definition extract_content :: "env \<Rightarrow> entity \<Rightarrow> error + string" where
  "extract_content w root =
     (if is_multipart root then scan_parts w (walk root) else decoded_payload w root)"

subsection \<open>Recipient classification (lines 139--140)\<close>

definition is_known_recipient :: "config \<Rightarrow> string list \<Rightarrow> bool" where
  "is_known_recipient cfg rcpttos =
     list_ex (\<lambda>recipient. lower recipient \<in> set (map (\<lambda>address. lower address)
                                                  (map fst (EMAIL_ENDPOINTS cfg)))) rcpttos"

subsection \<open>\<^verbatim>\<open>forward_to_webhook\<close> (lines 151--166)\<close>

definition forward_to_webhook :: "config \<Rightarrow> env \<Rightarrow> string \<Rightarrow> string \<Rightarrow> string \<Rightarrow> state \<Rightarrow> (error + unit) \<times> state" where
  "forward_to_webhook cfg w recipient decoded_subject content st =
     (let payload = [(''from'', recipient), (''subject'', decoded_subject), (''content'', content)];
          endpoint = map_of (EMAIL_ENDPOINTS cfg) (lower recipient)
      in case endpoint of
           None \<Rightarrow> (Inr (), st)
         | Some url \<Rightarrow>
             if url = [] then (Inr (), st)
             else (case requests_post w url payload of
                     Response status_code \<Rightarrow>
                       (Inr (),
                        st\<lparr>posts := posts st @ [(url, payload)],
                           logger_known := logger_known st @
                             [(INFO, ''Forwarded to '' @ url @ '': '' @ str_of_nat status_code)]\<rparr>)
                   | RequestException e \<Rightarrow>
                       (Inr (),
                        st\<lparr>posts := posts st @ [(url, payload)],
                           logger_known := logger_known st @
                             [(ERROR, ''Error sending to '' @ url @ '': '' @ e)]\<rparr>)
                   | OtherException x \<Rightarrow>
                       (Inl x, st\<lparr>posts := posts st @ [(url, payload)]\<rparr>)))"

subsection \<open>\<^verbatim>\<open>async_handle_message\<close> (lines 112--149)\<close>

text \<open>
  The loop of lines 145--147 over the recipients, one forward after the other; an
  exception that leaves a forward leaves the loop.
\<close>

fun forward_loop :: "config \<Rightarrow> env \<Rightarrow> string list \<Rightarrow> string \<Rightarrow> string \<Rightarrow> state \<Rightarrow> (error + unit) \<times> state" where
  "forward_loop cfg w [] decoded_subject content st = (Inr (), st)"
| "forward_loop cfg w (recipient # rest) decoded_subject content st =
     (if lower recipient \<in> set (map fst (EMAIL_ENDPOINTS cfg))
      then (case forward_to_webhook cfg w recipient decoded_subject content st of
              (Inl e, st') \<Rightarrow> (Inl e, st')
            | (Inr u, st') \<Rightarrow> forward_loop cfg w rest decoded_subject content st')
      else forward_loop cfg w rest decoded_subject content st)"

text \<open>
  Lines 121--122 wrap a \<^verbatim>\<open>str\<close> in a list and leave any other value as it is; iterating
  \<^verbatim>\<open>None\<close> or a \<^verbatim>\<open>Header\<close> at line 139 raises \<^verbatim>\<open>TypeError\<close>.
\<close>

definition normalize_rcpttos :: "to_header \<Rightarrow> error + string list" where
  "normalize_rcpttos t =
     (case t of ToNone \<Rightarrow> Inl TypeError | ToStr s \<Rightarrow> Inr [s] | ToHeader h \<Rightarrow> Inl TypeError)"

definition log_entry :: "string option \<Rightarrow> string list \<Rightarrow> string \<Rightarrow> string \<Rightarrow> string" where
  "log_entry mailfrom rcpttos decoded_subject content =
     ''From: '' @ fmt mailfrom @ '', To: '' @ join '', '' rcpttos @
     '', Subject: '' @ decoded_subject @
     '', Size: '' @ str_of_nat (length content) @ '' bytes''"

definition async_handle_message :: "config \<Rightarrow> env \<Rightarrow> message \<Rightarrow> state \<Rightarrow> (error + unit) \<times> state" where
  "async_handle_message cfg w message st =
     (let mailfrom = msg_from message in
      if (case mailfrom of None \<Rightarrow> True | Some f \<Rightarrow> f \<notin> set (ALLOWED_SENDERS cfg))
      then (Inr (), st\<lparr>logger_unknown := logger_unknown st @
              [(INFO, ''Rejected email from unauthorized sender: '' @ fmt mailfrom)]\<rparr>)
      else
        (case decode_subject w message of
           Inl e \<Rightarrow> (Inl e, st)
         | Inr decoded_subject \<Rightarrow>
            (case extract_content w (msg_root message) of
               Inl e \<Rightarrow> (Inl e, st)
             | Inr content \<Rightarrow>
                (case normalize_rcpttos (msg_to message) of
                   Inl e \<Rightarrow> (Inl e, st)
                 | Inr rcpttos \<Rightarrow>
                    if is_known_recipient cfg rcpttos
                    then forward_loop cfg w rcpttos decoded_subject content
                            (st\<lparr>logger_known := logger_known st @
                               [(INFO, log_entry mailfrom rcpttos decoded_subject content)]\<rparr>)
                    else (Inr (), st\<lparr>logger_unknown := logger_unknown st @
                            [(INFO, log_entry mailfrom rcpttos decoded_subject content)]\<rparr>)))))"

subsection \<open>The requests of a forward\<close>

text \<open>The call of \<^verbatim>\<open>requests.post\<close> that one call of \<^verbatim>\<open>forward_to_webhook\<close> adds to the
  trace, if any; used to describe the trace of the loop.\<close>

definition request_of :: "config \<Rightarrow> string \<Rightarrow> string \<Rightarrow> string \<Rightarrow> (string \<times> (string \<times> string) list) list" where
  "request_of cfg s c recipient =
     (case map_of (EMAIL_ENDPOINTS cfg) (lower recipient) of
        None \<Rightarrow> []
      | Some url \<Rightarrow>
          if url = [] then []
          else [(url, [(''from'', recipient), (''subject'', s), (''content'', c)])])"

section \<open>Example configurations, library behaviour and messages\<close>

text \<open>The configuration of the module's docstring, with one allowed sender.\<close>

definition example_config :: config where
  "example_config =
     \<lparr>EMAIL_ENDPOINTS = [(''known@example.com'', ''https://example.com/webhook'')],
      ALLOWED_SENDERS = [''sender@example.com'']\<rparr>"

text \<open>
  The library on the inputs of the examples: the encoded subject that \<^verbatim>\<open>local_test.py\<close>
  sends, the UTF-8 and US-ASCII codecs on ASCII bytes (a byte above 127 standing alone is
  a \<^verbatim>\<open>UnicodeDecodeError\<close>, an unknown codec name a \<^verbatim>\<open>LookupError\<close>), and a webhook that
  answers 200.
\<close>

definition example_env :: env where
  "example_env =
     \<lparr>rfc2047_words = (\<lambda>h. if h = ''=?utf-8?q?Test_Email_thing?=''
                             then Inr [(''Test Email thing'', Some ''utf-8'')]
                             else Inl HeaderParseError),
      bytes_decode = (\<lambda>enc b. if enc \<in> set [''utf-8'', ''us-ascii'']
                               then (if list_all (\<lambda>c. (of_char c :: nat) < 128) b then Inr b
                                     else Inl UnicodeDecodeError)
                               else Inl LookupError),
      requests_post = (\<lambda>url payload. Response 200)\<rparr>"

definition st0 :: state where
  "st0 = \<lparr>logger_known = [], logger_unknown = [], posts = []\<rparr>"

definition evil_message :: message where
  "evil_message =
     \<lparr>msg_from = Some ''evil@x.com'', msg_to = ToStr ''known@example.com'',
      msg_subject = Some ''=?utf-8?q?Test_Email_thing?='',
      msg_root = Leaf ''text/plain'' (Some ''utf-8'') ''hello''\<rparr>"

text \<open>The message that \<^verbatim>\<open>local_test.py\<close> sends.\<close>

definition test_message :: message where
  "test_message =
     \<lparr>msg_from = Some ''sender@example.com'', msg_to = ToStr ''known@example.com'',
      msg_subject = Some ''=?utf-8?q?Test_Email_thing?='',
      msg_root = Leaf ''text/plain'' (Some ''utf-8'') ''This is the body of the test email.''\<rparr>"

definition no_subject_message :: message where
  "no_subject_message =
     \<lparr>msg_from = Some ''sender@example.com'', msg_to = ToStr ''known@example.com'',
      msg_subject = None,
      msg_root = Leaf ''text/plain'' (Some ''utf-8'') ''This is the body of the test email.''\<rparr>"



text \<open>The same endpoint under a key that is not lower-case.\<close>

definition mixed_case_config :: config where
  "mixed_case_config =
     \<lparr>EMAIL_ENDPOINTS = [(''Known@Example.com'', ''https://example.com/webhook'')],
      ALLOWED_SENDERS = [''sender@example.com'']\<rparr>"

text \<open>Multipart bodies: HTML before plain text, and an attachment only.\<close>

definition html_first_message :: message where
  "html_first_message =
     \<lparr>msg_from = Some ''sender@example.com'', msg_to = ToStr ''known@example.com'',
      msg_subject = Some ''=?utf-8?q?Test_Email_thing?='',
      msg_root = Multipart ''multipart/alternative'' None
                   [Leaf ''text/html'' (Some ''utf-8'') ''<b>hi</b>'',
                    Leaf ''text/plain'' None ''hi'']\<rparr>"

definition attachment_only_message :: message where
  "attachment_only_message =
     \<lparr>msg_from = Some ''sender@example.com'', msg_to = ToStr ''known@example.com'',
      msg_subject = Some ''=?utf-8?q?Test_Email_thing?='',
      msg_root = Multipart ''multipart/mixed'' None
                   [Leaf ''application/pdf'' None ''%PDF'']\<rparr>"

text \<open>Two endpoints, and a library whose first webhook cannot be reached.\<close>

definition two_endpoint_config :: config where
  "two_endpoint_config =
     \<lparr>EMAIL_ENDPOINTS = [(''known@example.com'', ''https://example.com/webhook''),
                         (''second@example.com'', ''https://second.example.com/hook'')],
      ALLOWED_SENDERS = [''sender@example.com'']\<rparr>"

definition failing_env :: env where
  "failing_env =
     example_env\<lparr>requests_post :=
       (\<lambda>url payload. if url = ''https://example.com/webhook''
                       then RequestException ''connection refused''
                       else Response 200)\<rparr>"

text \<open>A mapping whose endpoint is the empty string.\<close>

definition empty_endpoint_config :: config where
  "empty_endpoint_config =
     \<lparr>EMAIL_ENDPOINTS = [(''known@example.com'', [])],
      ALLOWED_SENDERS = [''sender@example.com'']\<rparr>"

text \<open>
  A message to two recipients, one of the mapping and one that is not: its header is
  \<^verbatim>\<open>To: known@example.com, other@example.com\<close>.
\<close>

definition two_rcpt_message :: message where
  "two_rcpt_message =
     \<lparr>msg_from = Some ''sender@example.com'',
      msg_to = ToStr ''known@example.com, other@example.com'',
      msg_subject = Some ''=?utf-8?q?Test_Email_thing?='',
      msg_root = Leaf ''text/plain'' (Some ''utf-8'') ''hello''\<rparr>"

section \<open>Sender authorization\<close>

text \<open>
  C5. A message whose sender is not in the allow-list stops at the authorization check:
  the task returns normally, no HTTP request is issued, the known sink is untouched, and
  the unknown sink receives exactly one entry, whose text contains
  ``unauthorized sender''.
\<close>

theorem unauthorized_sender_stops:
  assumes "msg_from message \<notin> Some ` set (ALLOWED_SENDERS cfg)"
  shows "fst (async_handle_message cfg w message st) = Inr () \<and>
         posts (snd (async_handle_message cfg w message st)) = posts st \<and>
         logger_known (snd (async_handle_message cfg w message st)) = logger_known st \<and>
         (\<exists>reason pre post.
            logger_unknown (snd (async_handle_message cfg w message st)) =
              logger_unknown st @ [(INFO, reason)] \<and>
            reason = pre @ ''unauthorized sender'' @ post)"
proof -
  let ?reason = "''Rejected email from unauthorized sender: '' @ fmt (msg_from message)"
  have rejected:
    "(case msg_from message of None \<Rightarrow> True | Some f \<Rightarrow> f \<notin> set (ALLOWED_SENDERS cfg))"
    using assms by (auto split: option.splits)
  have run: "async_handle_message cfg w message st =
           (Inr (), st\<lparr>logger_unknown := logger_unknown st @ [(INFO, ?reason)]\<rparr>)"
    unfolding async_handle_message_def Let_def using rejected by simp
  have "?reason = ''Rejected email from '' @ ''unauthorized sender'' @ ('': '' @ fmt (msg_from message))"
    by simp
  then have "\<exists>reason pre post.
      logger_unknown st @ [(INFO, ?reason)] = logger_unknown st @ [(INFO, reason)] \<and>
      reason = pre @ ''unauthorized sender'' @ post"
    by blast
  with run show ?thesis by simp
qed

theorem unauthorized_sender_stops_witness:
  "msg_from evil_message \<notin> Some ` set (ALLOWED_SENDERS example_config) \<and>
   async_handle_message example_config example_env evil_message st0 =
     (Inr (), \<lparr>logger_known = [],
               logger_unknown = [(INFO, ''Rejected email from unauthorized sender: evil@x.com'')],
               posts = []\<rparr>)"
  using unauthorized_sender_stops [of evil_message example_config example_env st0]
  by (simp add: async_handle_message_def evil_message_def example_config_def st0_def fmt_def)

subsection \<open>The comparison is exact\<close>

lemma forward_to_webhook_unknown:
  "logger_unknown (snd (forward_to_webhook cfg w recipient s c st)) = logger_unknown st"
  by (simp add: forward_to_webhook_def Let_def split: option.splits post_result.splits)

lemma forward_loop_unknown:
  "logger_unknown (snd (forward_loop cfg w rs s c st)) = logger_unknown st"
proof (induction rs arbitrary: st)
  case Nil
  show ?case by simp
next
  case (Cons r rs)
  show ?case
  proof (cases "lower r \<in> set (map fst (EMAIL_ENDPOINTS cfg))")
    case False
    then show ?thesis using Cons.IH by simp
  next
    case True
    obtain res st' where fw: "forward_to_webhook cfg w r s c st = (res, st')"
      by (cases "forward_to_webhook cfg w r s c st")
    have same: "logger_unknown st' = logger_unknown st"
      using forward_to_webhook_unknown [of cfg w r s c st] fw by simp
    show ?thesis
    proof (cases res)
      case (Inl e)
      with True fw same show ?thesis by simp
    next
      case (Inr u)
      with True fw same Cons.IH [of st'] show ?thesis by simp
    qed
  qed
qed

lemma log_entry_not_rejection:
  "log_entry mailfrom rcpttos s c \<noteq> ''Rejected email from unauthorized sender: '' @ x"
  by (simp add: log_entry_def)

lemma allowed_run:
  assumes "msg_from message = Some a" and "a \<in> set (ALLOWED_SENDERS cfg)"
  shows "(\<exists>e. fst (async_handle_message cfg w message st) = Inl e) \<or>
         logger_unknown (snd (async_handle_message cfg w message st)) = logger_unknown st \<or>
         (\<exists>rs s c. logger_unknown (snd (async_handle_message cfg w message st)) =
            logger_unknown st @ [(INFO, log_entry (Some a) rs s c)])"
  using assms
  by (auto simp add: async_handle_message_def Let_def forward_loop_unknown split: sum.splits)

text \<open>
  C9. The sender check compares the From value with the allow-list entries as they are:
  the message is rejected as an unauthorized sender exactly when the From value differs
  from every entry. A value that differs from an entry only in letter case, or that wraps
  it in a display name, is rejected; nothing is lower-cased on either side.
\<close>

theorem sender_check_is_exact:
  "async_handle_message cfg w message st =
     (Inr (), st\<lparr>logger_unknown := logger_unknown st @
        [(INFO, ''Rejected email from unauthorized sender: '' @ fmt (msg_from message))]\<rparr>)
   \<longleftrightarrow> (\<forall>a \<in> set (ALLOWED_SENDERS cfg). msg_from message \<noteq> Some a)"
  (is "?run = ?rejected \<longleftrightarrow> ?differs")
proof
  assume ?differs
  then have "(case msg_from message of None \<Rightarrow> True | Some f \<Rightarrow> f \<notin> set (ALLOWED_SENDERS cfg))"
    by (auto split: option.splits)
  then show "?run = ?rejected"
    unfolding async_handle_message_def Let_def by simp
next
  assume run: "?run = ?rejected"
  show ?differs
  proof (rule ccontr)
    assume "\<not> ?differs"
    then obtain a where a: "msg_from message = Some a" "a \<in> set (ALLOWED_SENDERS cfg)"
      by auto
    from run have res: "fst ?run = Inr ()"
      and unk: "logger_unknown (snd ?run) = logger_unknown st @
                  [(INFO, ''Rejected email from unauthorized sender: '' @ fmt (msg_from message))]"
      by simp_all
    from allowed_run [OF a, of w st] res unk show False
      using log_entry_not_rejection by fastforce
  qed
qed

theorem sender_check_is_exact_witness:
  "''Sender@Example.com'' \<notin> set (ALLOWED_SENDERS example_config) \<and>
   async_handle_message example_config example_env
       (test_message\<lparr>msg_from := Some ''Sender@Example.com''\<rparr>) st0 =
     (Inr (), st0\<lparr>logger_unknown :=
        [(INFO, ''Rejected email from unauthorized sender: Sender@Example.com'')]\<rparr>) \<and>
   ''Sender <sender@example.com>'' \<notin> set (ALLOWED_SENDERS example_config) \<and>
   async_handle_message example_config example_env
       (test_message\<lparr>msg_from := Some ''Sender <sender@example.com>''\<rparr>) st0 =
     (Inr (), st0\<lparr>logger_unknown :=
        [(INFO, ''Rejected email from unauthorized sender: Sender <sender@example.com>'')]\<rparr>)"
  using sender_check_is_exact [of example_config example_env
          "test_message\<lparr>msg_from := Some ''Sender@Example.com''\<rparr>" st0]
        sender_check_is_exact [of example_config example_env
          "test_message\<lparr>msg_from := Some ''Sender <sender@example.com>''\<rparr>" st0]
  by (simp add: example_config_def test_message_def st0_def fmt_def)

section \<open>Subject decoding\<close>

lemma decode_subject_plain:
  assumes "\<not> ecre_search subject"
    and "msg_subject message = Some subject \<or> (msg_subject message = None \<and> subject = ''No subject'')"
  shows "decode_subject w message = Inl TypeError"
  using assms by (auto simp add: decode_subject_def decode_header_def py_str_def)

lemma no_subject_has_no_encoded_word: "\<not> ecre_search ''No subject''"
  by (simp add: ecre_here_def)

lemma decode_subject_absent:
  "msg_subject message = None \<Longrightarrow> decode_subject w message = Inl TypeError"
  using decode_subject_plain [OF no_subject_has_no_encoded_word] by blast

text \<open>
  C3. With the subject header absent the default \<^verbatim>\<open>'No subject'\<close> is a \<^verbatim>\<open>str\<close>;
  \<^verbatim>\<open>decode_header\<close> returns it as it is, and \<^verbatim>\<open>str(t[0], 'utf-8')\<close> raises
  \<^verbatim>\<open>TypeError\<close>: the decoder's output is not ``No subject'', and the task ends with
  the error before anything is logged or forwarded.
\<close>

theorem missing_subject_raises:
  "decode_subject example_env no_subject_message = Inl TypeError \<and>
   async_handle_message example_config example_env no_subject_message st0 = (Inl TypeError, st0)"
  by (simp add: async_handle_message_def decode_subject_absent no_subject_message_def
      example_config_def)

section \<open>Recipient matching\<close>

lemma char_lower_idem: "char_lower (char_lower c) = char_lower c"
  by (simp add: char_lower_def Let_def)

lemma lower_idem: "lower (lower s) = lower s"
  by (simp add: lower_def char_lower_idem)

text \<open>
  C1. With the mapping keyed \<^verbatim>\<open>Known@Example.com\<close> the recipient
  \<^verbatim>\<open>known@example.com\<close> is classified known (line 140 lower-cases the keys too) and the
  message is logged to the known sink, but the test of line 146 and the lookup of
  line 159 compare the lower-cased recipient with the keys as they are: nothing is
  forwarded.
\<close>

theorem mixed_case_key_not_forwarded:
  "is_known_recipient mixed_case_config [''known@example.com''] \<and>
   map_of (EMAIL_ENDPOINTS mixed_case_config) (lower ''known@example.com'') = None \<and>
   async_handle_message mixed_case_config example_env test_message st0 =
     (Inr (),
      \<lparr>logger_known = [(INFO, ''From: sender@example.com, To: known@example.com, Subject: Test Email thing, Size: 35 bytes'')],
       logger_unknown = [],
       posts = []\<rparr>)"
  by code_simp

section \<open>Content extraction\<close>

lemma scan_parts_first:
  "(\<exists>i < length ps.
      get_content_type (ps ! i) \<in> set [''text/plain'', ''text/html''] \<and>
      (\<forall>j < i. get_content_type (ps ! j) \<notin> set [''text/plain'', ''text/html'']) \<and>
      scan_parts w ps = decoded_payload w (ps ! i)) \<or>
   ((\<forall>p \<in> set ps. get_content_type p \<notin> set [''text/plain'', ''text/html'']) \<and>
    scan_parts w ps = Inr [])"
proof (induction ps)
  case Nil
  then show ?case by simp
next
  case (Cons p ps)
  show ?case
  proof (cases "get_content_type p \<in> set [''text/plain'', ''text/html'']")
    case True
    then have "get_content_type ((p # ps) ! 0) \<in> set [''text/plain'', ''text/html''] \<and>
               (\<forall>j < 0. get_content_type ((p # ps) ! j) \<notin> set [''text/plain'', ''text/html'']) \<and>
               scan_parts w (p # ps) = decoded_payload w ((p # ps) ! 0)"
      by simp
    then show ?thesis by blast
  next
    case False
    from Cons.IH show ?thesis
    proof
      assume "\<exists>i < length ps.
        get_content_type (ps ! i) \<in> set [''text/plain'', ''text/html''] \<and>
        (\<forall>j < i. get_content_type (ps ! j) \<notin> set [''text/plain'', ''text/html'']) \<and>
        scan_parts w ps = decoded_payload w (ps ! i)"
      then obtain i where i: "i < length ps"
        "get_content_type (ps ! i) \<in> set [''text/plain'', ''text/html'']"
        "\<forall>j < i. get_content_type (ps ! j) \<notin> set [''text/plain'', ''text/html'']"
        "scan_parts w ps = decoded_payload w (ps ! i)"
        by blast
      have earlier: "\<forall>j < Suc i. get_content_type ((p # ps) ! j) \<notin> set [''text/plain'', ''text/html'']"
      proof (intro allI impI)
        fix j assume "j < Suc i"
        then show "get_content_type ((p # ps) ! j) \<notin> set [''text/plain'', ''text/html'']"
          using False i(3) by (cases j) simp_all
      qed
      have "Suc i < length (p # ps) \<and>
            get_content_type ((p # ps) ! Suc i) \<in> set [''text/plain'', ''text/html''] \<and>
            scan_parts w (p # ps) = decoded_payload w ((p # ps) ! Suc i)"
        using i False by simp
      with earlier show ?thesis by blast
    next
      assume "(\<forall>p \<in> set ps. get_content_type p \<notin> set [''text/plain'', ''text/html'']) \<and>
              scan_parts w ps = Inr []"
      with False show ?thesis by simp
    qed
  qed
qed

lemma decoded_payload_Leaf:
  "decoded_payload w (Leaf t cs b) = bytes_decode w (case cs of None \<Rightarrow> ''utf-8'' | Some c \<Rightarrow> c) b"
  by (simp add: decoded_payload_def)

text \<open>
  C6. On a multipart message the extractor goes through the parts in the order of
  \<^verbatim>\<open>walk()\<close> and returns what decoding the first part of type \<^verbatim>\<open>text/plain\<close> or
  \<^verbatim>\<open>text/html\<close> gives: for a leaf, its payload decoded with its declared charset, or with
  UTF-8 when it declares none. Whatever follows that part is not looked at. When no part
  has either type the content is the empty string, not an error.
\<close>

theorem multipart_takes_first_text_part:
  assumes "is_multipart root"
  shows "(\<exists>i < length (walk root).
            get_content_type (walk root ! i) \<in> set [''text/plain'', ''text/html''] \<and>
            (\<forall>j < i. get_content_type (walk root ! j) \<notin> set [''text/plain'', ''text/html'']) \<and>
            extract_content w root = decoded_payload w (walk root ! i) \<and>
            (\<forall>t cs b. walk root ! i = Leaf t cs b \<longrightarrow>
               extract_content w root =
                 bytes_decode w (case cs of None \<Rightarrow> ''utf-8'' | Some c \<Rightarrow> c) b)) \<or>
         ((\<forall>p \<in> set (walk root). get_content_type p \<notin> set [''text/plain'', ''text/html'']) \<and>
          extract_content w root = Inr [])"
proof -
  have run: "extract_content w root = scan_parts w (walk root)"
    using assms by (simp add: extract_content_def)
  from scan_parts_first [of "walk root" w] show ?thesis
    unfolding run using decoded_payload_Leaf by metis
qed

theorem multipart_takes_first_text_part_witness:
  "is_multipart (msg_root html_first_message) \<and>
   extract_content example_env (msg_root html_first_message) = Inr ''<b>hi</b>'' \<and>
   is_multipart (msg_root attachment_only_message) \<and>
   extract_content example_env (msg_root attachment_only_message) = Inr []"
  using multipart_takes_first_text_part [of "msg_root html_first_message" example_env]
        multipart_takes_first_text_part [of "msg_root attachment_only_message" example_env]
  by (simp add: html_first_message_def attachment_only_message_def extract_content_def
      decoded_payload_def example_env_def)

section \<open>Forwarding\<close>

lemma key_iff_map_of:
  "lower recipient \<in> set (map fst (EMAIL_ENDPOINTS cfg)) \<longleftrightarrow>
   map_of (EMAIL_ENDPOINTS cfg) (lower recipient) \<noteq> None"
  by (simp add: map_of_eq_None_iff)

lemma key_is_known:
  assumes "lower recipient \<in> set (map fst (EMAIL_ENDPOINTS cfg))" and "recipient \<in> set rcpttos"
  shows "is_known_recipient cfg rcpttos"
proof -
  from assms(1) obtain k where k: "k \<in> set (map fst (EMAIL_ENDPOINTS cfg))" "lower recipient = k"
    by blast
  then have "lower k = lower recipient" using lower_idem [of recipient] by simp
  with k have "lower recipient \<in> set (map (\<lambda>address. lower address) (map fst (EMAIL_ENDPOINTS cfg)))"
    by force
  with assms(2) show ?thesis
    unfolding is_known_recipient_def list_ex_iff by blast
qed

lemma not_known_no_key:
  assumes "\<not> is_known_recipient cfg rcpttos" and "recipient \<in> set rcpttos"
  shows "lower recipient \<notin> set (map fst (EMAIL_ENDPOINTS cfg))"
  using assms key_is_known by blast

lemma forward_to_webhook_exception:
  assumes "map_of (EMAIL_ENDPOINTS cfg) (lower recipient) = Some url" and "url \<noteq> []"
    and "requests_post w url [(''from'', recipient), (''subject'', s), (''content'', c)] = RequestException e"
  shows "forward_to_webhook cfg w recipient s c st =
           (Inr (),
            st\<lparr>posts := posts st @ [(url, [(''from'', recipient), (''subject'', s), (''content'', c)])],
               logger_known := logger_known st @
                 [(ERROR, ''Error sending to '' @ url @ '': '' @ e)]\<rparr>)"
  using assms by (simp add: forward_to_webhook_def Let_def)

text \<open>An exception of another class leaves the forward, after the call and with no entry.\<close>

lemma forward_to_webhook_other_exception:
  assumes "map_of (EMAIL_ENDPOINTS cfg) (lower recipient) = Some url" and "url \<noteq> []"
    and "requests_post w url [(''from'', recipient), (''subject'', s), (''content'', c)] = OtherException x"
  shows "forward_to_webhook cfg w recipient s c st =
           (Inl x,
            st\<lparr>posts := posts st @ [(url, [(''from'', recipient), (''subject'', s), (''content'', c)])]\<rparr>)"
  using assms by (simp add: forward_to_webhook_def Let_def)

lemma forward_to_webhook_falsy:
  assumes "map_of (EMAIL_ENDPOINTS cfg) (lower recipient) = None \<or>
           map_of (EMAIL_ENDPOINTS cfg) (lower recipient) = Some []"
  shows "forward_to_webhook cfg w recipient s c st = (Inr (), st)"
  using assms by (auto simp add: forward_to_webhook_def Let_def)



lemma forward_to_webhook_posts:
  "posts (snd (forward_to_webhook cfg w recipient s c st)) = posts st @ request_of cfg s c recipient"
  by (simp add: forward_to_webhook_def request_of_def Let_def
      split: option.splits post_result.splits)

text \<open>The loop makes the calls of its recipients in order, up to the one it stops at.\<close>

lemma forward_loop_posts:
  "\<exists>k. posts (snd (forward_loop cfg w rs s c st)) =
        posts st @ concat (map (request_of cfg s c) (take k rs))"
proof (induction rs arbitrary: st)
  case Nil
  show ?case by simp
next
  case (Cons r rs)
  show ?case
  proof (cases "lower r \<in> set (map fst (EMAIL_ENDPOINTS cfg))")
    case False
    then have none: "request_of cfg s c r = []"
      using key_iff_map_of [of r cfg] by (simp add: request_of_def)
    from Cons.IH [of st] obtain k where
      "posts (snd (forward_loop cfg w rs s c st)) =
         posts st @ concat (map (request_of cfg s c) (take k rs))"
      by blast
    with False none have "posts (snd (forward_loop cfg w (r # rs) s c st)) =
        posts st @ concat (map (request_of cfg s c) (take (Suc k) (r # rs)))"
      by simp
    then show ?thesis by blast
  next
    case True
    obtain res st' where fw: "forward_to_webhook cfg w r s c st = (res, st')"
      by (cases "forward_to_webhook cfg w r s c st")
    have one: "posts st' = posts st @ request_of cfg s c r"
      using forward_to_webhook_posts [of cfg w r s c st] fw by simp
    show ?thesis
    proof (cases res)
      case (Inl e)
      with True fw one have "posts (snd (forward_loop cfg w (r # rs) s c st)) =
          posts st @ concat (map (request_of cfg s c) (take (Suc 0) (r # rs)))"
        by simp
      then show ?thesis by blast
    next
      case (Inr u)
      from Cons.IH [of st'] obtain k where
        "posts (snd (forward_loop cfg w rs s c st')) =
           posts st' @ concat (map (request_of cfg s c) (take k rs))"
        by blast
      with Inr True fw one have "posts (snd (forward_loop cfg w (r # rs) s c st)) =
          posts st @ concat (map (request_of cfg s c) (take (Suc k) (r # rs)))"
        by simp
      then show ?thesis by blast
    qed
  qed
qed

lemma run_posts:
  "posts (snd (async_handle_message cfg w message st)) = posts st \<or>
   (\<exists>rcpttos s c k.
      normalize_rcpttos (msg_to message) = Inr rcpttos \<and>
      decode_subject w message = Inr s \<and>
      extract_content w (msg_root message) = Inr c \<and>
      posts (snd (async_handle_message cfg w message st)) =
        posts st @ concat (map (request_of cfg s c) (take k rcpttos)))"
proof (cases "\<exists>rcpttos s c. normalize_rcpttos (msg_to message) = Inr rcpttos \<and>
      decode_subject w message = Inr s \<and> extract_content w (msg_root message) = Inr c \<and>
      is_known_recipient cfg rcpttos \<and>
      \<not> (case msg_from message of None \<Rightarrow> True | Some f \<Rightarrow> f \<notin> set (ALLOWED_SENDERS cfg))")
  case False
  then have "posts (snd (async_handle_message cfg w message st)) = posts st"
    by (auto simp add: async_handle_message_def Let_def split: sum.splits)
  then show ?thesis by blast
next
  case True
  then obtain rcpttos s c where run:
    "normalize_rcpttos (msg_to message) = Inr rcpttos"
    "decode_subject w message = Inr s" "extract_content w (msg_root message) = Inr c"
    "is_known_recipient cfg rcpttos"
    "\<not> (case msg_from message of None \<Rightarrow> True | Some f \<Rightarrow> f \<notin> set (ALLOWED_SENDERS cfg))"
    by blast
  let ?st1 = "st\<lparr>logger_known := logger_known st @
                [(INFO, log_entry (msg_from message) rcpttos s c)]\<rparr>"
  have "async_handle_message cfg w message st = forward_loop cfg w rcpttos s c ?st1"
    using run unfolding async_handle_message_def Let_def by simp
  moreover from forward_loop_posts [of cfg w rcpttos s c ?st1] obtain k where
    "posts (snd (forward_loop cfg w rcpttos s c ?st1)) =
       posts ?st1 @ concat (map (request_of cfg s c) (take k rcpttos))"
    by blast
  ultimately have "posts (snd (async_handle_message cfg w message st)) =
       posts st @ concat (map (request_of cfg s c) (take k rcpttos))"
    by simp
  with run show ?thesis by blast
qed

text \<open>
  C7. When the HTTP call of a forward attempt raises a \<^verbatim>\<open>RequestException\<close>, the attempt
  issues that one request and no other, appends exactly one entry to the known sink, at
  level ERROR, and returns; the loop over the recipients goes on with the remaining
  recipients from the state the attempt left.
\<close>

theorem transport_failure_logged_once:
  assumes "map_of (EMAIL_ENDPOINTS cfg) (lower recipient) = Some url" and "url \<noteq> []"
    and "requests_post w url [(''from'', recipient), (''subject'', s), (''content'', c)] =
           RequestException e"
  shows "forward_to_webhook cfg w recipient s c st =
           (Inr (),
            st\<lparr>posts := posts st @ [(url, [(''from'', recipient), (''subject'', s), (''content'', c)])],
               logger_known := logger_known st @
                 [(ERROR, ''Error sending to '' @ url @ '': '' @ e)]\<rparr>) \<and>
         forward_loop cfg w (recipient # rest) s c st =
           forward_loop cfg w rest s c
             (st\<lparr>posts := posts st @ [(url, [(''from'', recipient), (''subject'', s), (''content'', c)])],
                 logger_known := logger_known st @
                   [(ERROR, ''Error sending to '' @ url @ '': '' @ e)]\<rparr>)"
proof -
  have key: "lower recipient \<in> set (map fst (EMAIL_ENDPOINTS cfg))"
    using assms(1) key_iff_map_of [of recipient cfg] by simp
  have one: "forward_to_webhook cfg w recipient s c st =
           (Inr (),
            st\<lparr>posts := posts st @ [(url, [(''from'', recipient), (''subject'', s), (''content'', c)])],
               logger_known := logger_known st @
                 [(ERROR, ''Error sending to '' @ url @ '': '' @ e)]\<rparr>)"
    using assms by (rule forward_to_webhook_exception)
  with key show ?thesis by simp
qed

theorem transport_failure_logged_once_witness:
  "map_of (EMAIL_ENDPOINTS two_endpoint_config) (lower ''known@example.com'') =
     Some ''https://example.com/webhook'' \<and>
   requests_post failing_env ''https://example.com/webhook''
     [(''from'', ''known@example.com''), (''subject'', ''Hi''), (''content'', ''hello'')] =
     RequestException ''connection refused'' \<and>
   forward_loop two_endpoint_config failing_env
     [''known@example.com'', ''second@example.com''] ''Hi'' ''hello'' st0 =
     (Inr (),
      \<lparr>logger_known =
         [(ERROR, ''Error sending to https://example.com/webhook: connection refused''),
          (INFO, ''Forwarded to https://second.example.com/hook: 200'')],
       logger_unknown = [],
       posts =
         [(''https://example.com/webhook'',
           [(''from'', ''known@example.com''), (''subject'', ''Hi''), (''content'', ''hello'')]),
          (''https://second.example.com/hook'',
           [(''from'', ''second@example.com''), (''subject'', ''Hi''), (''content'', ''hello'')])]\<rparr>)"
proof -
  have h1: "map_of (EMAIL_ENDPOINTS two_endpoint_config) (lower ''known@example.com'') =
              Some ''https://example.com/webhook''"
    by code_simp
  have h2: "''https://example.com/webhook'' \<noteq> []"
    by simp
  have h3: "requests_post failing_env ''https://example.com/webhook''
              [(''from'', ''known@example.com''), (''subject'', ''Hi''), (''content'', ''hello'')] =
              RequestException ''connection refused''"
    by (simp add: failing_env_def)
  have rest: "forward_loop two_endpoint_config failing_env [''second@example.com''] ''Hi'' ''hello''
      (st0\<lparr>posts := posts st0 @ [(''https://example.com/webhook'',
              [(''from'', ''known@example.com''), (''subject'', ''Hi''), (''content'', ''hello'')])],
           logger_known := logger_known st0 @
              [(ERROR, ''Error sending to '' @ ''https://example.com/webhook'' @ '': '' @
                       ''connection refused'')]\<rparr>) =
     (Inr (),
      \<lparr>logger_known =
         [(ERROR, ''Error sending to https://example.com/webhook: connection refused''),
          (INFO, ''Forwarded to https://second.example.com/hook: 200'')],
       logger_unknown = [],
       posts =
         [(''https://example.com/webhook'',
           [(''from'', ''known@example.com''), (''subject'', ''Hi''), (''content'', ''hello'')]),
          (''https://second.example.com/hook'',
           [(''from'', ''second@example.com''), (''subject'', ''Hi''), (''content'', ''hello'')])]\<rparr>)"
    by code_simp
  from transport_failure_logged_once [OF h1 h2 h3, of st0 "[''second@example.com'']"] rest h1 h3
  show ?thesis by simp
qed

text \<open>
  C8. Every request that the task issues is a POST to the URL that the mapping holds
  for the lower-cased address of one of the message's recipients, and its JSON body has
  the three fields \<^verbatim>\<open>from\<close>, \<^verbatim>\<open>subject\<close> and \<^verbatim>\<open>content\<close>, in which \<^verbatim>\<open>from\<close> is that recipient
  as the message gives it, \<^verbatim>\<open>subject\<close> the decoded subject and \<^verbatim>\<open>content\<close> the extracted
  content.
\<close>

theorem forwarded_request_shape:
  assumes "(url, body) \<in>
             set (drop (length (posts st)) (posts (snd (async_handle_message cfg w message st))))"
  shows "\<exists>recipient rcpttos decoded_subject content.
           normalize_rcpttos (msg_to message) = Inr rcpttos \<and>
           recipient \<in> set rcpttos \<and>
           map_of (EMAIL_ENDPOINTS cfg) (lower recipient) = Some url \<and>
           decode_subject w message = Inr decoded_subject \<and>
           extract_content w (msg_root message) = Inr content \<and>
           body = [(''from'', recipient), (''subject'', decoded_subject), (''content'', content)]"
proof -
  from run_posts [of cfg w message st] show ?thesis
  proof
    assume "posts (snd (async_handle_message cfg w message st)) = posts st"
    with assms show ?thesis by simp
  next
    assume "\<exists>rcpttos s c k.
      normalize_rcpttos (msg_to message) = Inr rcpttos \<and>
      decode_subject w message = Inr s \<and>
      extract_content w (msg_root message) = Inr c \<and>
      posts (snd (async_handle_message cfg w message st)) =
        posts st @ concat (map (request_of cfg s c) (take k rcpttos))"
    then obtain rcpttos s c k where run:
      "normalize_rcpttos (msg_to message) = Inr rcpttos"
      "decode_subject w message = Inr s"
      "extract_content w (msg_root message) = Inr c"
      "posts (snd (async_handle_message cfg w message st)) =
         posts st @ concat (map (request_of cfg s c) (take k rcpttos))"
      by blast
    from assms run(4) have "(url, body) \<in> set (concat (map (request_of cfg s c) (take k rcpttos)))"
      by simp
    then obtain recipient where r: "recipient \<in> set (take k rcpttos)"
      "(url, body) \<in> set (request_of cfg s c recipient)"
      by auto
    from r(1) have mem: "recipient \<in> set rcpttos"
      by (rule in_set_takeD)
    from r(2) have "map_of (EMAIL_ENDPOINTS cfg) (lower recipient) = Some url \<and>
                    body = [(''from'', recipient), (''subject'', s), (''content'', c)]"
      by (auto simp add: request_of_def split: option.splits if_splits)
    with run mem show ?thesis by blast
  qed
qed

theorem forwarded_request_shape_witness:
  "(''https://example.com/webhook'',
    [(''from'', ''known@example.com''), (''subject'', ''Test Email thing''),
     (''content'', ''This is the body of the test email.'')]) \<in>
     set (drop (length (posts st0))
            (posts (snd (async_handle_message example_config example_env test_message st0)))) \<and>
   normalize_rcpttos (msg_to test_message) = Inr [''known@example.com''] \<and>
   map_of (EMAIL_ENDPOINTS example_config) (lower ''known@example.com'') =
     Some ''https://example.com/webhook'' \<and>
   decode_subject example_env test_message = Inr ''Test Email thing'' \<and>
   extract_content example_env (msg_root test_message) =
     Inr ''This is the body of the test email.''"
proof -
  have h: "(''https://example.com/webhook'',
    [(''from'', ''known@example.com''), (''subject'', ''Test Email thing''),
     (''content'', ''This is the body of the test email.'')]) \<in>
     set (drop (length (posts st0))
            (posts (snd (async_handle_message example_config example_env test_message st0))))"
    by code_simp
  have facts: "normalize_rcpttos (msg_to test_message) = Inr [''known@example.com''] \<and>
   map_of (EMAIL_ENDPOINTS example_config) (lower ''known@example.com'') =
     Some ''https://example.com/webhook'' \<and>
   decode_subject example_env test_message = Inr ''Test Email thing'' \<and>
   extract_content example_env (msg_root test_message) =
     Inr ''This is the body of the test email.''"
    by code_simp
  from forwarded_request_shape [OF h] facts h show ?thesis by simp
qed

lemma forward_loop_skip:
  assumes "\<And>st'. forward_to_webhook cfg w recipient s c st' = (Inr (), st')"
  shows "forward_loop cfg w rcpttos s c st = forward_loop cfg w (removeAll recipient rcpttos) s c st"
proof (induction rcpttos arbitrary: st)
  case Nil
  show ?case by simp
next
  case (Cons a rs)
  show ?case
  proof (cases "a = recipient")
    case True
    have "forward_loop cfg w (a # rs) s c st = forward_loop cfg w rs s c st"
      unfolding True by (simp add: assms)
    also have "\<dots> = forward_loop cfg w (removeAll recipient rs) s c st"
      by (rule Cons.IH)
    also have "\<dots> = forward_loop cfg w (removeAll recipient (a # rs)) s c st"
      using True by simp
    finally show ?thesis .
  next
    case False
    have "forward_loop cfg w (removeAll recipient (a # rs)) s c st =
          forward_loop cfg w (a # removeAll recipient rs) s c st"
      using False by simp
    also have "\<dots> = forward_loop cfg w (a # rs) s c st"
      by (simp add: Cons.IH [symmetric] split: prod.splits sum.splits)
    finally show ?thesis by simp
  qed
qed

text \<open>
  C10. When the mapping holds the empty string for a recipient, the forward attempt for
  that recipient returns the state as it found it: no request, no entry in either sink.
  The loop over the recipients runs as if the recipient were not in the list. The
  recipient still makes the message known: the message entry goes to the known sink,
  once, before the loop; for a message whose To header is that recipient this entry is
  all the task does.
\<close>

theorem empty_endpoint_forward_is_noop:
  assumes "map_of (EMAIL_ENDPOINTS cfg) (lower recipient) = Some []"
  shows "forward_to_webhook cfg w recipient s c st = (Inr (), st) \<and>
         forward_loop cfg w rcpttos s c st =
           forward_loop cfg w (removeAll recipient rcpttos) s c st \<and>
         (msg_from message = Some f \<and> f \<in> set (ALLOWED_SENDERS cfg) \<and>
          decode_subject w message = Inr s \<and>
          extract_content w (msg_root message) = Inr c \<and>
          normalize_rcpttos (msg_to message) = Inr rcpttos \<and>
          recipient \<in> set rcpttos \<longrightarrow>
            async_handle_message cfg w message st =
              forward_loop cfg w (removeAll recipient rcpttos) s c
                 (st\<lparr>logger_known := logger_known st @
                    [(INFO, log_entry (Some f) rcpttos s c)]\<rparr>)) \<and>
         (msg_from message = Some f \<and> f \<in> set (ALLOWED_SENDERS cfg) \<and>
          decode_subject w message = Inr s \<and>
          extract_content w (msg_root message) = Inr c \<and>
          msg_to message = ToStr recipient \<longrightarrow>
            async_handle_message cfg w message st =
              (Inr (), st\<lparr>logger_known := logger_known st @
                         [(INFO, log_entry (Some f) [recipient] s c)]\<rparr>))"
proof -
  have noop: "forward_to_webhook cfg w recipient s c st' = (Inr (), st')" for st'
    using assms by (simp add: forward_to_webhook_falsy)
  have skip: "forward_loop cfg w rs s c st' =
                forward_loop cfg w (removeAll recipient rs) s c st'" for st' rs
    using noop by (rule forward_loop_skip)
  have key: "lower recipient \<in> set (map fst (EMAIL_ENDPOINTS cfg))"
    using assms key_iff_map_of [of recipient cfg] by simp
  have run: "async_handle_message cfg w message st =
              forward_loop cfg w (removeAll recipient rs) s c
                 (st\<lparr>logger_known := logger_known st @
                    [(INFO, log_entry (Some f) rs s c)]\<rparr>)"
    if "msg_from message = Some f" "f \<in> set (ALLOWED_SENDERS cfg)"
      "decode_subject w message = Inr s" "extract_content w (msg_root message) = Inr c"
      "normalize_rcpttos (msg_to message) = Inr rs" "recipient \<in> set rs" for rs
  proof -
    have "is_known_recipient cfg rs"
      using key that(6) by (rule key_is_known)
    with that have "async_handle_message cfg w message st =
        forward_loop cfg w rs s c
          (st\<lparr>logger_known := logger_known st @ [(INFO, log_entry (Some f) rs s c)]\<rparr>)"
      unfolding async_handle_message_def Let_def by (simp del: forward_loop.simps)
    also have "\<dots> = forward_loop cfg w (removeAll recipient rs) s c
          (st\<lparr>logger_known := logger_known st @ [(INFO, log_entry (Some f) rs s c)]\<rparr>)"
      by (rule skip)
    finally show ?thesis .
  qed
  have single: "async_handle_message cfg w message st =
              (Inr (), st\<lparr>logger_known := logger_known st @
                         [(INFO, log_entry (Some f) [recipient] s c)]\<rparr>)"
    if "msg_from message = Some f" "f \<in> set (ALLOWED_SENDERS cfg)"
      "decode_subject w message = Inr s" "extract_content w (msg_root message) = Inr c"
      "msg_to message = ToStr recipient"
  proof -
    have "normalize_rcpttos (msg_to message) = Inr [recipient]"
      using that(5) by (simp add: normalize_rcpttos_def)
    from run [OF that(1-4) this] show ?thesis by simp
  qed
  show ?thesis
  proof (intro conjI impI)
    show "forward_to_webhook cfg w recipient s c st = (Inr (), st)"
      by (rule noop)
  next
    show "forward_loop cfg w rcpttos s c st =
            forward_loop cfg w (removeAll recipient rcpttos) s c st"
      by (rule skip)
  next
    assume "msg_from message = Some f \<and> f \<in> set (ALLOWED_SENDERS cfg) \<and>
          decode_subject w message = Inr s \<and>
          extract_content w (msg_root message) = Inr c \<and>
          normalize_rcpttos (msg_to message) = Inr rcpttos \<and>
          recipient \<in> set rcpttos"
    then show "async_handle_message cfg w message st =
              forward_loop cfg w (removeAll recipient rcpttos) s c
                 (st\<lparr>logger_known := logger_known st @
                    [(INFO, log_entry (Some f) rcpttos s c)]\<rparr>)"
      using run [of rcpttos] by blast
  next
    assume "msg_from message = Some f \<and> f \<in> set (ALLOWED_SENDERS cfg) \<and>
          decode_subject w message = Inr s \<and>
          extract_content w (msg_root message) = Inr c \<and>
          msg_to message = ToStr recipient"
    then show "async_handle_message cfg w message st =
              (Inr (), st\<lparr>logger_known := logger_known st @
                         [(INFO, log_entry (Some f) [recipient] s c)]\<rparr>)"
      using single by blast
  qed
qed

theorem empty_endpoint_forward_is_noop_witness:
  "map_of (EMAIL_ENDPOINTS empty_endpoint_config) (lower ''known@example.com'') = Some [] \<and>
   forward_to_webhook empty_endpoint_config example_env ''known@example.com''
     ''Test Email thing'' ''This is the body of the test email.'' st0 = (Inr (), st0) \<and>
   async_handle_message empty_endpoint_config example_env test_message st0 =
     (Inr (),
      \<lparr>logger_known = [(INFO, ''From: sender@example.com, To: known@example.com, Subject: Test Email thing, Size: 35 bytes'')],
       logger_unknown = [],
       posts = []\<rparr>)"
proof -
  have h: "map_of (EMAIL_ENDPOINTS empty_endpoint_config) (lower ''known@example.com'') = Some []"
    by code_simp
  have run: "async_handle_message empty_endpoint_config example_env test_message st0 =
     (Inr (),
      \<lparr>logger_known = [(INFO, ''From: sender@example.com, To: known@example.com, Subject: Test Email thing, Size: 35 bytes'')],
       logger_unknown = [],
       posts = []\<rparr>)"
    by code_simp
  from empty_endpoint_forward_is_noop [OF h, of example_env "''Test Email thing''"
         "''This is the body of the test email.''" st0] h run
  show ?thesis by simp
qed

section \<open>A message with one known and one unknown recipient\<close>

text \<open>
  C4. The recipients are read from the To header, and \<^verbatim>\<open>message['to']\<close> is the header's
  value as one \<^verbatim>\<open>str\<close>. Lines 121--122 wrap it in a list of one element and nothing splits
  it, so for \<^verbatim>\<open>To: known@example.com, other@example.com\<close> the only recipient the loop
  and the classification see is the whole value. It is no key of the mapping, although
  \<^verbatim>\<open>known@example.com\<close> is: the message is logged to the unknown sink, nothing is written
  to the known sink and nothing is forwarded.
\<close>

theorem two_recipient_header_not_forwarded:
  "msg_from two_rcpt_message = Some ''sender@example.com'' \<and>
   ''sender@example.com'' \<in> set (ALLOWED_SENDERS example_config) \<and>
   msg_to two_rcpt_message = ToStr ''known@example.com, other@example.com'' \<and>
   normalize_rcpttos (msg_to two_rcpt_message) = Inr [''known@example.com, other@example.com''] \<and>
   is_known_recipient example_config [''known@example.com''] \<and>
   \<not> is_known_recipient example_config [''other@example.com''] \<and>
   \<not> is_known_recipient example_config [''known@example.com, other@example.com''] \<and>
   async_handle_message example_config example_env two_rcpt_message st0 =
     (Inr (),
      \<lparr>logger_known = [],
       logger_unknown =
         [(INFO, ''From: sender@example.com, To: known@example.com, other@example.com, Subject: Test Email thing, Size: 5 bytes'')],
       posts = []\<rparr>)"
  by code_simp

section \<open>The task body and its failures\<close>




end
